theory Spec2Isabelle
  imports Complex_Main "HOL-Library.AList" "HOL-Library.Sublist"
begin

section \<open>JSON values as Python sees them\<close>

text \<open>
  The bridge (\<^verbatim>\<open>src/server/roblox_mcp_server.py\<close>) handles the values that
  \<^verbatim>\<open>json.loads\<close> produces: \<^verbatim>\<open>None\<close>, \<^verbatim>\<open>bool\<close>, \<^verbatim>\<open>int\<close>,
  \<^verbatim>\<open>float\<close>, \<^verbatim>\<open>str\<close>, \<^verbatim>\<open>list\<close> and \<^verbatim>\<open>dict\<close> with string keys.
  A \<^verbatim>\<open>dict\<close> keeps insertion order, so it is an association list; \<open>py_setitem\<close>
  keeps the position of an existing key and appends a new one, as Python does.
  Strings are byte lists holding the UTF-8 encoding of the Python string.
  Floats and clock readings are idealised as reals (finite values only).
\<close>

datatype json =
    JNull
  | JBool bool
  | JInt int
  | JFloat real
  | JStr string
  | JArr "json list"
  | JObj "(string \<times> json) list"

type_synonym pydict = "(string \<times> json) list"

datatype py_error = AttributeError | TypeError | UnicodeDecodeError

text \<open>Python truthiness (\<^verbatim>\<open>bool(x)\<close>), as used by \<^verbatim>\<open>not x\<close> and \<^verbatim>\<open>x or y\<close>.\<close>

fun py_truthy :: "json \<Rightarrow> bool" where
  "py_truthy JNull = False"
| "py_truthy (JBool b) = b"
| "py_truthy (JInt i) = (i \<noteq> 0)"
| "py_truthy (JFloat r) = (r \<noteq> 0)"
| "py_truthy (JStr s) = (s \<noteq> [])"
| "py_truthy (JArr xs) = (xs \<noteq> [])"
| "py_truthy (JObj kvs) = (kvs \<noteq> [])"

definition py_or :: "json \<Rightarrow> json \<Rightarrow> json" where
  "py_or a b = (if py_truthy a then a else b)"

text \<open>\<^verbatim>\<open>d.get(k)\<close>, \<^verbatim>\<open>d.get(k, default)\<close>, \<^verbatim>\<open>k in d\<close> and \<^verbatim>\<open>d[k] = v\<close> on a dict.\<close>

definition py_get_default :: "pydict \<Rightarrow> string \<Rightarrow> json \<Rightarrow> json" where
  "py_get_default d k dflt = (case map_of d k of None \<Rightarrow> dflt | Some v \<Rightarrow> v)"

definition py_get :: "pydict \<Rightarrow> string \<Rightarrow> json" where
  "py_get d k = py_get_default d k JNull"

definition py_contains :: "pydict \<Rightarrow> string \<Rightarrow> bool" where
  "py_contains d k = (map_of d k \<noteq> None)"

definition py_setitem :: "pydict \<Rightarrow> string \<Rightarrow> json \<Rightarrow> pydict" where
  "py_setitem d k v = AList.update k v d"

text \<open>
  Dictionary keys are compared by Python equality and must be hashable:
  \<^verbatim>\<open>True == 1 == 1.0\<close> are one key, a string equals only the same string,
  and a \<^verbatim>\<open>list\<close> or \<^verbatim>\<open>dict\<close> raises \<^verbatim>\<open>TypeError\<close> (unhashable).
\<close>

datatype pykey = KNone | KNum real | KStr string

fun py_hash_key :: "json \<Rightarrow> py_error + pykey" where
  "py_hash_key JNull = Inr KNone"
| "py_hash_key (JBool b) = Inr (KNum (if b then 1 else 0))"
| "py_hash_key (JInt i) = Inr (KNum (of_int i))"
| "py_hash_key (JFloat r) = Inr (KNum r)"
| "py_hash_key (JStr s) = Inr (KStr s)"
| "py_hash_key (JArr xs) = Inl TypeError"
| "py_hash_key (JObj kvs) = Inl TypeError"

section \<open>JobQueue\<close>

text \<open>
  \<^verbatim>\<open>class JobQueue\<close>: \<^verbatim>\<open>_pending\<close> maps a client id to its list of jobs (insertion
  order of the clients matters to \<^verbatim>\<open>cancel_job\<close>, which scans them in order),
  \<^verbatim>\<open>_results\<close> maps a job id to the uploaded result, \<^verbatim>\<open>_last_seen\<close> maps a client
  id to a clock reading. Client ids that reach \<^verbatim>\<open>mark_seen\<close> and \<^verbatim>\<open>wait_for_job\<close>
  come from the query string and are strings.
\<close>

record job_queue =
  pending :: "(string \<times> pydict list) list"
  results :: "pykey \<rightharpoonup> json"
  last_seen :: "string \<rightharpoonup> real"

definition empty_queue :: job_queue where
  "empty_queue = \<lparr>pending = [], results = Map.empty, last_seen = Map.empty\<rparr>"

text \<open>\<^verbatim>\<open>self._pending.get(client_id)\<close>; a missing client and an empty list are both falsy.\<close>

definition mailbox :: "job_queue \<Rightarrow> string \<Rightarrow> pydict list" where
  "mailbox q c = (case map_of (pending q) c of None \<Rightarrow> [] | Some js \<Rightarrow> js)"

definition mark_seen :: "string \<Rightarrow> real \<Rightarrow> job_queue \<Rightarrow> job_queue" where
  "mark_seen c now q = q\<lparr>last_seen := (last_seen q)(c \<mapsto> now)\<rparr>"

text \<open>\<^verbatim>\<open>self._last_seen.get(client_id)\<close> for a key of any hashable type.\<close>

definition get_last_seen :: "pykey \<Rightarrow> job_queue \<Rightarrow> real option" where
  "get_last_seen k q = (case k of KStr c \<Rightarrow> last_seen q c | _ \<Rightarrow> None)"

definition is_connected :: "pykey \<Rightarrow> real \<Rightarrow> real \<Rightarrow> job_queue \<Rightarrow> bool" where
  "is_connected k max_age now q =
     (case get_last_seen k q of None \<Rightarrow> False | Some seen \<Rightarrow> now - seen < max_age)"

text \<open>\<^verbatim>\<open>self._pending.setdefault(client_id, []).append(job)\<close>\<close>

definition enqueue :: "string \<Rightarrow> pydict \<Rightarrow> job_queue \<Rightarrow> job_queue" where
  "enqueue c job q = q\<lparr>pending := AList.update c (mailbox q c @ [job]) (pending q)\<rparr>"

text \<open>The critical section of \<^verbatim>\<open>wait_for_job\<close>: \<^verbatim>\<open>if queue: return queue.pop(0)\<close>.\<close>

definition pop_job :: "string \<Rightarrow> job_queue \<Rightarrow> pydict option \<times> job_queue" where
  "pop_job c q =
     (case mailbox q c of
        [] \<Rightarrow> (None, q)
      | j # js \<Rightarrow> (Some j, q\<lparr>pending := AList.update c js (pending q)\<rparr>))"

definition store_result :: "pykey \<Rightarrow> json \<Rightarrow> job_queue \<Rightarrow> job_queue" where
  "store_result k r q = q\<lparr>results := (results q)(k \<mapsto> r)\<rparr>"

text \<open>The critical section of \<^verbatim>\<open>wait_for_result\<close>:
  \<^verbatim>\<open>if job_id in self._results: return self._results.pop(job_id)\<close>.\<close>

definition take_result :: "pykey \<Rightarrow> job_queue \<Rightarrow> json option \<times> job_queue" where
  "take_result k q =
     (case results q k of
        None \<Rightarrow> (None, q)
      | Some r \<Rightarrow> (Some r, q\<lparr>results := (results q)(k := None)\<rparr>))"

text \<open>\<^verbatim>\<open>cancel_job\<close>: the first job whose \<^verbatim>\<open>job.get("job_id") == job_id\<close>, scanning the
  clients in dict order and each list from its head, is removed.\<close>

fun remove_first_job :: "string \<Rightarrow> pydict list \<Rightarrow> pydict list option" where
  "remove_first_job jid [] = None"
| "remove_first_job jid (j # js) =
     (if py_get j ''job_id'' = JStr jid then Some js
      else map_option ((#) j) (remove_first_job jid js))"

fun cancel_pending :: "string \<Rightarrow> (string \<times> pydict list) list \<Rightarrow> (string \<times> pydict list) list option" where
  "cancel_pending jid [] = None"
| "cancel_pending jid ((c, js) # rest) =
     (case remove_first_job jid js of
        Some js' \<Rightarrow> Some ((c, js') # rest)
      | None \<Rightarrow> map_option ((#) (c, js)) (cancel_pending jid rest))"

definition cancel_job :: "string \<Rightarrow> job_queue \<Rightarrow> bool \<times> job_queue" where
  "cancel_job jid q =
     (case cancel_pending jid (pending q) of
        Some p \<Rightarrow> (True, q\<lparr>pending := p\<rparr>)
      | None \<Rightarrow> (False, q))"

subsection \<open>Other threads\<close>

text \<open>
  Every method of \<^verbatim>\<open>JobQueue\<close> runs under the one lock of \<^verbatim>\<open>self._cv\<close>, so what the
  other threads do while a thread waits is a sequence of whole critical sections.
\<close>

datatype action =
    MarkSeen string real
  | Enqueue string pydict
  | PopJob string
  | StoreResult pykey json
  | TakeResult pykey
  | CancelJob string

fun exec_action :: "action \<Rightarrow> job_queue \<Rightarrow> job_queue" where
  "exec_action (MarkSeen c now) q = mark_seen c now q"
| "exec_action (Enqueue c job) q = enqueue c job q"
| "exec_action (PopJob c) q = snd (pop_job c q)"
| "exec_action (StoreResult k r) q = store_result k r q"
| "exec_action (TakeResult k) q = snd (take_result k q)"
| "exec_action (CancelJob jid) q = snd (cancel_job jid q)"

definition exec_actions :: "action list \<Rightarrow> job_queue \<Rightarrow> job_queue" where
  "exec_actions acts q = fold exec_action acts q"

subsection \<open>Blocking waits\<close>

text \<open>
  \<^verbatim>\<open>wait_for_job\<close> and \<^verbatim>\<open>wait_for_result\<close> loop: test availability, read the clock,
  give up when \<^verbatim>\<open>remaining <= 0\<close>, else \<^verbatim>\<open>self._cv.wait(timeout=remaining)\<close>.
  Each pass of the loop is one element of the schedule: the critical sections the other
  threads ran before this thread got the lock, and the clock reading of this pass.
  A schedule that ends while the thread still waits gives \<open>None\<close>: the call has not
  returned.
\<close>

type_synonym schedule = "(action list \<times> real) list"

fun wait_for_job_loop ::
  "string \<Rightarrow> real \<Rightarrow> job_queue \<Rightarrow> schedule \<Rightarrow> (pydict option \<times> job_queue) option" where
  "wait_for_job_loop c deadline q [] = None"
| "wait_for_job_loop c deadline q ((acts, now) # ws) =
     (let q1 = exec_actions acts q in
      case pop_job c q1 of
        (Some j, q2) \<Rightarrow> Some (Some j, q2)
      | (None, _) \<Rightarrow>
          if deadline - now \<le> 0 then Some (None, q1)
          else wait_for_job_loop c deadline q1 ws)"

definition wait_for_job ::
  "string \<Rightarrow> real \<Rightarrow> real \<Rightarrow> job_queue \<Rightarrow> schedule \<Rightarrow> (pydict option \<times> job_queue) option" where
  "wait_for_job c timeout_sec t0 q ws = wait_for_job_loop c (t0 + timeout_sec) q ws"

fun wait_for_result_loop ::
  "pykey \<Rightarrow> real \<Rightarrow> job_queue \<Rightarrow> schedule \<Rightarrow> (json option \<times> job_queue) option" where
  "wait_for_result_loop k deadline q [] = None"
| "wait_for_result_loop k deadline q ((acts, now) # ws) =
     (let q1 = exec_actions acts q in
      case take_result k q1 of
        (Some r, q2) \<Rightarrow> Some (Some r, q2)
      | (None, _) \<Rightarrow>
          if deadline - now \<le> 0 then Some (None, q1)
          else wait_for_result_loop k deadline q1 ws)"

definition wait_for_result ::
  "pykey \<Rightarrow> real \<Rightarrow> real \<Rightarrow> job_queue \<Rightarrow> schedule \<Rightarrow> (json option \<times> job_queue) option" where
  "wait_for_result k timeout_sec t0 q ws = wait_for_result_loop k (t0 + timeout_sec) q ws"

subsection \<open>Histories of critical sections\<close>




fun touches_result :: "pykey \<Rightarrow> action \<Rightarrow> bool" where
  "touches_result k (StoreResult k' r) = (k' = k)"
| "touches_result k (TakeResult k') = (k' = k)"
| "touches_result k _ = False"

fun stores_result :: "pykey \<Rightarrow> action \<Rightarrow> bool" where
  "stores_result k (StoreResult k' r) = (k' = k)"
| "stores_result k _ = False"

section \<open>Building a job\<close>

text \<open>The table \<^verbatim>\<open>tool_to_job\<close> of \<^verbatim>\<open>_build_job\<close>.\<close>

definition tool_to_job :: "(string \<times> string) list" where
  "tool_to_job =
    [(''roblox_list_services'', ''list_services''),
     (''roblox_get_children'', ''get_children''),
     (''roblox_get_descendants'', ''get_descendants''),
     (''roblox_get_instance'', ''get_instance''),
     (''roblox_find_instances'', ''find_instances''),
     (''roblox_create_instance'', ''create_instance''),
     (''roblox_delete_instance'', ''delete_instance''),
     (''roblox_clone_instance'', ''clone_instance''),
     (''roblox_reparent_instance'', ''reparent_instance''),
     (''roblox_set_name'', ''set_name''),
     (''roblox_select_instance'', ''select_instance''),
     (''roblox_get_tree'', ''get_tree''),
     (''roblox_get_attributes'', ''get_attributes''),
     (''roblox_set_attributes'', ''set_attributes''),
     (''roblox_get_properties'', ''get_properties''),
     (''roblox_set_properties'', ''set_properties''),
     (''roblox_get_tags'', ''get_tags''),
     (''roblox_add_tag'', ''add_tag''),
     (''roblox_remove_tag'', ''remove_tag''),
     (''roblox_read_script'', ''read_script''),
     (''roblox_write_script'', ''write_script''),
     (''roblox_patch_script'', ''patch_script''),
     (''roblox_get_script_lines'', ''get_script_lines''),
     (''roblox_search_script'', ''search_script''),
     (''roblox_get_script_functions'', ''get_script_functions''),
     (''roblox_search_across_scripts'', ''search_across_scripts''),
     (''roblox_get_selection'', ''get_selection''),
     (''roblox_open_script'', ''open_script''),
     (''roblox_get_open_scripts'', ''get_open_scripts''),
     (''roblox_close_script'', ''close_script''),
     (''roblox_undo'', ''undo''),
     (''roblox_redo'', ''redo''),
     (''roblox_set_waypoint'', ''set_waypoint''),
     (''roblox_get_all_properties'', ''get_all_properties''),
     (''roblox_run_code'', ''run_code''),
     (''roblox_insert_model'', ''insert_model''),
     (''roblox_get_console_output'', ''get_console_output''),
     (''roblox_start_stop_play'', ''start_stop_play''),
     (''roblox_run_script_in_play_mode'', ''run_script_in_play_mode''),
     (''roblox_get_studio_mode'', ''get_studio_mode''),
     (''roblox_terrain_fill_block'', ''terrain_fill_block''),
     (''roblox_terrain_fill_ball'', ''terrain_fill_ball''),
     (''roblox_terrain_fill_cylinder'', ''terrain_fill_cylinder''),
     (''roblox_terrain_replace_material'', ''terrain_replace_material''),
     (''roblox_terrain_read_voxels'', ''terrain_read_voxels''),
     (''roblox_terrain_clear_region'', ''terrain_clear_region''),
     (''roblox_bulk_create_instances'', ''bulk_create_instances''),
     (''roblox_bulk_set_properties'', ''bulk_set_properties''),
     (''roblox_bulk_delete_instances'', ''bulk_delete_instances''),
     (''roblox_find_and_replace_in_scripts'', ''find_and_replace_in_scripts''),
     (''roblox_get_place_info'', ''get_place_info''),
     (''roblox_set_lighting'', ''set_lighting''),
     (''roblox_get_workspace_info'', ''get_workspace_info''),
     (''roblox_get_team_list'', ''get_team_list''),
     (''roblox_get_lighting_effects'', ''get_lighting_effects'')]"

text \<open>\<^verbatim>\<open>name not in tool_to_job\<close> / \<^verbatim>\<open>tool_to_job[name]\<close>: the name is hashed first
  (a list or dict raises), and only a string can equal one of the keys.\<close>

definition lookup_tool :: "json \<Rightarrow> py_error + string option" where
  "lookup_tool name =
     (case py_hash_key name of
        Inl e \<Rightarrow> Inl e
      | Inr (KStr s) \<Rightarrow> Inr (map_of tool_to_job s)
      | Inr _ \<Rightarrow> Inr None)"

text \<open>
  \<^verbatim>\<open>_build_job(name, arguments)\<close>. \<open>hex12\<close> is \<^verbatim>\<open>uuid.uuid4().hex[:12]\<close> and \<open>now\<close>
  the reading of \<^verbatim>\<open>time.time()\<close>. \<open>Inr None\<close> is the \<^verbatim>\<open>return None\<close> of an
  unknown tool.
\<close>

definition build_job :: "string \<Rightarrow> real \<Rightarrow> json \<Rightarrow> pydict \<Rightarrow> py_error + pydict option" where
  "build_job hex12 now name arguments =
     (let job_id = ''job_'' @ hex12 in
      case lookup_tool name of
        Inl e \<Rightarrow> Inl e
      | Inr None \<Rightarrow> Inr None
      | Inr (Some job_type) \<Rightarrow>
          (let job_args = arguments;
               job_args =
                 (if job_type \<in> {''run_code'', ''run_script_in_play_mode''} then
                    (if \<not> py_truthy (py_get job_args ''code'') then
                       py_setitem job_args ''code''
                         (py_or (py_get job_args ''script'') (py_get job_args ''source''))
                     else job_args)
                  else job_args)
           in Inr (Some [(''job_id'', JStr job_id),
                         (''type'', JStr job_type),
                         (''args'', JObj job_args),
                         (''created_at'', JFloat now)])))"

section \<open>HTTP transport: the result upload\<close>

text \<open>
  \<^verbatim>\<open>RobloxBridgeHttpHandler.do_POST\<close>. \<open>path\<close> is \<^verbatim>\<open>urlparse(self.path).path\<close>,
  \<open>len\<close> the value of the \<^verbatim>\<open>Content-Length\<close> header (0 when absent), and \<open>body\<close> what
  \<^verbatim>\<open>json.loads(raw.decode("utf-8"))\<close> does on the \<open>len\<close> bytes read: the two library
  calls either raise or give a JSON value. With \<open>len = 0\<close> nothing is read and the
  handler parses the literal \<^verbatim>\<open>b"{}"\<close> instead. Only \<^verbatim>\<open>json.JSONDecodeError\<close> is
  caught. The reply is the status code and the payload given to \<^verbatim>\<open>_json_response\<close>.
\<close>

datatype decoded = UnicodeDecodeFails | JSONDecodeFails | Decoded json

definition do_POST ::
  "string \<Rightarrow> nat \<Rightarrow> decoded \<Rightarrow> job_queue \<Rightarrow> (py_error + nat \<times> json) \<times> job_queue" where
  "do_POST path len body q =
     (if path \<noteq> ''/result'' then
        (Inr (404, JObj [(''ok'', JBool False), (''error'', JStr ''not_found'')]), q)
      else
        case (if len \<noteq> 0 then body else Decoded (JObj [])) of
          UnicodeDecodeFails \<Rightarrow> (Inl UnicodeDecodeError, q)
        | JSONDecodeFails \<Rightarrow>
            (Inr (400, JObj [(''ok'', JBool False), (''error'', JStr ''invalid_json'')]), q)
        | Decoded payload \<Rightarrow>
            (case payload of
               JObj d \<Rightarrow>
                 (let job_id = py_get d ''job_id'' in
                  if \<not> py_truthy job_id then
                    (Inr (400, JObj [(''ok'', JBool False), (''error'', JStr ''missing_job_id'')]), q)
                  else
                    case py_hash_key job_id of
                      Inl e \<Rightarrow> (Inl e, q)
                    | Inr k \<Rightarrow> (Inr (200, JObj [(''ok'', JBool True)]), store_result k payload q))
             | _ \<Rightarrow> (Inl AttributeError, q)))"

section \<open>Serialising a tool result\<close>

text \<open>
  \<^verbatim>\<open>json.dumps(payload, ensure_ascii=False, indent=2)\<close> as CPython's \<^verbatim>\<open>json.encoder\<close>
  computes it. With \<^verbatim>\<open>ensure_ascii=False\<close> a string is quoted and only the quote, the
  backslash and the control characters below \<^verbatim>\<open>0x20\<close> are replaced (\<^verbatim>\<open>ESCAPE\<close> and
  \<^verbatim>\<open>ESCAPE_DCT\<close>); every other character, so every byte of a non-ASCII character, is
  kept. With an indent the item separator is \<^verbatim>\<open>","\<close> followed by a newline and the
  indentation of the level, the key separator is \<^verbatim>\<open>": "\<close>, and an empty list or dict
  is \<^verbatim>\<open>[]\<close> or \<^verbatim>\<open>{}\<close>. The text of a float (\<^verbatim>\<open>float.__repr__\<close>) is the parameter
  \<open>float_repr\<close>.
\<close>

definition digit_char :: "nat \<Rightarrow> char" where
  "digit_char n = ''0123456789abcdef'' ! (n mod 16)"

function string_of_nat :: "nat \<Rightarrow> string" where
  "string_of_nat n = (if n < 10 then [digit_char n] else string_of_nat (n div 10) @ [digit_char (n mod 10)])"
  by pat_completeness auto
termination
  by (relation "measure id") auto

definition string_of_int :: "int \<Rightarrow> string" where
  "string_of_int i = (if i < 0 then CHR ''-'' # string_of_nat (nat (- i)) else string_of_nat (nat i))"

definition escape_char :: "char \<Rightarrow> string" where
  "escape_char c =
     (if c = CHR 0x22 then [CHR 0x5C, CHR 0x22]
      else if c = CHR 0x5C then [CHR 0x5C, CHR 0x5C]
      else if c = CHR 0x08 then [CHR 0x5C, CHR ''b'']
      else if c = CHR 0x0C then [CHR 0x5C, CHR ''f'']
      else if c = CHR 0x0A then [CHR 0x5C, CHR ''n'']
      else if c = CHR 0x0D then [CHR 0x5C, CHR ''r'']
      else if c = CHR 0x09 then [CHR 0x5C, CHR ''t'']
      else if (of_char c :: nat) < 0x20 then
        [CHR 0x5C, CHR ''u'', CHR ''0'', CHR ''0'',
         digit_char (of_char c div 16), digit_char (of_char c mod 16)]
      else [c])"

definition py_encode_basestring :: "string \<Rightarrow> string" where
  "py_encode_basestring s = [CHR 0x22] @ concat (map escape_char s) @ [CHR 0x22]"

fun join :: "string \<Rightarrow> string list \<Rightarrow> string" where
  "join sep [] = []"
| "join sep [x] = x"
| "join sep (x # y # ys) = x @ sep @ join sep (y # ys)"

definition newline_indent :: "nat \<Rightarrow> nat \<Rightarrow> string" where
  "newline_indent indent level = CHR 0x0A # replicate (indent * level) CHR '' ''"

fun dumps :: "(real \<Rightarrow> string) \<Rightarrow> nat \<Rightarrow> nat \<Rightarrow> json \<Rightarrow> string" where
  "dumps float_repr indent level JNull = ''null''"
| "dumps float_repr indent level (JBool b) = (if b then ''true'' else ''false'')"
| "dumps float_repr indent level (JInt i) = string_of_int i"
| "dumps float_repr indent level (JFloat r) = float_repr r"
| "dumps float_repr indent level (JStr s) = py_encode_basestring s"
| "dumps float_repr indent level (JArr xs) =
     (if xs = [] then ''[]''
      else ''['' @ newline_indent indent (level + 1)
           @ join ('','' @ newline_indent indent (level + 1))
                  (map (dumps float_repr indent (level + 1)) xs)
           @ newline_indent indent level @ '']'')"
| "dumps float_repr indent level (JObj kvs) =
     (if kvs = [] then ''{}''
      else ''{'' @ newline_indent indent (level + 1)
           @ join ('','' @ newline_indent indent (level + 1))
                  (map (\<lambda>kv. py_encode_basestring (fst kv) @ '': ''
                              @ dumps float_repr indent (level + 1) (snd kv)) kvs)
           @ newline_indent indent level @ ''}'')"

section \<open>Dispatcher\<close>

definition DEFAULT_CLIENT_ID :: string where
  "DEFAULT_CLIENT_ID = ''studio''"

text \<open>\<^verbatim>\<open>_tool_result\<close> and \<^verbatim>\<open>_tool_error\<close>.\<close>

definition tool_result :: "(real \<Rightarrow> string) \<Rightarrow> json \<Rightarrow> json" where
  "tool_result float_repr payload =
     (let text = dumps float_repr 2 0 payload
      in JObj [(''content'', JArr [JObj [(''type'', JStr ''text''), (''text'', JStr text)]])])"

definition tool_error :: "json \<Rightarrow> json" where
  "tool_error message =
     JObj [(''isError'', JBool True),
           (''content'', JArr [JObj [(''type'', JStr ''text''), (''text'', message)]])]"

text \<open>
  \<^verbatim>\<open>round(age, 1)\<close>, idealised on the reals: to the nearest tenth, a tie to the even one.
\<close>

definition py_round1 :: "real \<Rightarrow> real" where
  "py_round1 x =
     (let y = x * 10; f = \<lfloor>y\<rfloor>; d = y - of_int f
      in (if d < 1 / 2 then of_int f
          else if 1 / 2 < d then of_int (f + 1)
          else if even f then of_int f else of_int (f + 1)) / 10)"

text \<open>\<^verbatim>\<open>_get_connection_status(job_queue, arguments)\<close>; \<open>now\<close> is its clock reading.\<close>

definition get_connection_status :: "real \<Rightarrow> job_queue \<Rightarrow> pydict \<Rightarrow> py_error + json" where
  "get_connection_status now q arguments =
     (let client_id = py_or (py_get arguments ''client_id'') (JStr DEFAULT_CLIENT_ID) in
      case py_hash_key client_id of
        Inl e \<Rightarrow> Inl e
      | Inr k \<Rightarrow>
          (case get_last_seen k q of
             None \<Rightarrow> Inr (JObj [(''connected'', JBool False), (''client_id'', client_id)])
           | Some seen \<Rightarrow>
               (let age = now - seen
                in Inr (JObj [(''connected'', JBool (age < 15)),
                              (''client_id'', client_id),
                              (''last_seen_seconds'', JFloat (py_round1 age))]))))"

text \<open>
  \<^verbatim>\<open>str(name)\<close> inside \<^verbatim>\<open>f"Unknown tool: {name}"\<close>. The text of a list or dict is not
  given: \<^verbatim>\<open>_build_job\<close> raises on such a name before the message is built.
\<close>

fun py_str :: "(real \<Rightarrow> string) \<Rightarrow> json \<Rightarrow> string" where
  "py_str float_repr JNull = ''None''"
| "py_str float_repr (JBool b) = (if b then ''True'' else ''False'')"
| "py_str float_repr (JInt i) = string_of_int i"
| "py_str float_repr (JFloat r) = float_repr r"
| "py_str float_repr (JStr s) = s"

text \<open>
  What one call of \<^verbatim>\<open>McpServer._call_tool\<close> takes from outside the program: the
  clock readings, the random job id, and the critical sections the HTTP threads run at
  each point where the stdio thread does not hold the lock.
\<close>

record call_env =
  before_call :: "action list"
  t_connected :: real
  before_enqueue :: "action list"
  hex12 :: string
  t_created :: real
  t_wait :: real
  passes :: schedule
  before_cancel :: "action list"

datatype outcome = Returned json job_queue | Raised py_error job_queue | Blocked

text \<open>
  \<^verbatim>\<open>McpServer._call_tool(name, arguments)\<close>. \<open>Blocked\<close>: the schedule ended while
  \<^verbatim>\<open>wait_for_result\<close> still waited. \<^verbatim>\<open>is_connected\<close> holds for string client ids only
  (no other key is ever in \<^verbatim>\<open>_last_seen\<close>), and \<^verbatim>\<open>job["job_id"]\<close> is the string that
  \<^verbatim>\<open>_build_job\<close> put there; the two branches for other shapes are never taken.
\<close>

definition call_tool ::
  "(real \<Rightarrow> string) \<Rightarrow> real \<Rightarrow> call_env \<Rightarrow> json \<Rightarrow> json \<Rightarrow> job_queue \<Rightarrow> outcome" where
  "call_tool float_repr job_timeout_sec env name arguments q0 =
     (let q = exec_actions (before_call env) q0 in
      if name = JStr ''studio_get_connection_status'' then
        (case arguments of
           JObj args \<Rightarrow>
             (case get_connection_status (t_connected env) q args of
                Inl e \<Rightarrow> Raised e q
              | Inr status \<Rightarrow> Returned (tool_result float_repr status) q)
         | _ \<Rightarrow> Raised AttributeError q)
      else
        case arguments of
          JObj args \<Rightarrow>
            (let client_id = py_or (py_get args ''client_id'') (JStr DEFAULT_CLIENT_ID) in
             case py_hash_key client_id of
               Inl e \<Rightarrow> Raised e q
             | Inr k \<Rightarrow>
                 if \<not> is_connected k 15 (t_connected env) q then
                   Returned (tool_error (JStr
                     (''Studio is not connected. Make sure the Roblox Studio plugin ''
                      @ ''is installed and '' @ [CHR 0x27] @ ''Start Bridge Polling'' @ [CHR 0x27]
                      @ '' has been clicked.''))) q
                 else
                   (let q1 = exec_actions (before_enqueue env) q in
                    case build_job (hex12 env) (t_created env) name args of
                      Inl e \<Rightarrow> Raised e q1
                    | Inr None \<Rightarrow>
                        Returned (tool_error (JStr (''Unknown tool: '' @ py_str float_repr name))) q1
                    | Inr (Some job) \<Rightarrow>
                        (case (k, py_get job ''job_id'') of
                           (KStr c, JStr job_id) \<Rightarrow>
                             (case wait_for_result (KStr job_id) job_timeout_sec (t_wait env)
                                     (enqueue c job q1) (passes env) of
                                None \<Rightarrow> Blocked
                              | Some (None, q2) \<Rightarrow>
                                  Returned (tool_error (JStr
                                    (''Timed out waiting for Studio to respond. ''
                                     @ ''Check that the plugin is running and connected.'')))
                                    (snd (cancel_job job_id (exec_actions (before_cancel env) q2)))
                              | Some (Some res, q2) \<Rightarrow>
                                  (case res of
                                     JObj r \<Rightarrow>
                                       if \<not> py_truthy (py_get_default r ''ok'' (JBool False)) then
                                         Returned (tool_error
                                           (py_or (py_get r ''error'') (JStr ''Studio error''))) q2
                                       else Returned (tool_result float_repr (py_get r ''result'')) q2
                                   | _ \<Rightarrow> Raised AttributeError q2))
                         | _ \<Rightarrow> Raised TypeError q1)))
        | _ \<Rightarrow> Raised AttributeError q)"

text \<open>How many pending jobs, over all mailboxes, carry a given job id; which critical
  sections enqueue a job with that id.\<close>

definition has_job_id :: "string \<Rightarrow> pydict \<Rightarrow> bool" where
  "has_job_id jid j = (py_get j ''job_id'' = JStr jid)"

definition count_job_id :: "string \<Rightarrow> (string \<times> pydict list) list \<Rightarrow> nat" where
  "count_job_id jid p = sum_list (map (\<lambda>cjs. length (filter (has_job_id jid) (snd cjs))) p)"

fun enqueues_job_id :: "string \<Rightarrow> action \<Rightarrow> bool" where
  "enqueues_job_id jid (Enqueue c j) = has_job_id jid j"
| "enqueues_job_id jid _ = False"



section \<open>Stdio transport\<close>

text \<open>
  \<^verbatim>\<open>"method" in msg\<close> on whatever \<^verbatim>\<open>json.loads\<close> returned: key membership for a dict,
  element membership for a list, substring test for a string, and \<^verbatim>\<open>TypeError\<close>
  (not iterable) for \<^verbatim>\<open>None\<close>, a bool or a number.
\<close>

fun py_in :: "string \<Rightarrow> json \<Rightarrow> py_error + bool" where
  "py_in k (JObj d) = Inr (py_contains d k)"
| "py_in k (JArr xs) = Inr (JStr k \<in> set xs)"
| "py_in k (JStr s) = Inr (sublist k s)"
| "py_in k JNull = Inl TypeError"
| "py_in k (JBool b) = Inl TypeError"
| "py_in k (JInt i) = Inl TypeError"
| "py_in k (JFloat r) = Inl TypeError"

text \<open>
  How a run of the stdio thread ends: the input is exhausted, an exception leaves
  \<^verbatim>\<open>run\<close>, or the schedule ended inside a tool call that still waits. Standard output is
  the list of payloads given to \<^verbatim>\<open>_send\<close>, each written as one line.
\<close>

datatype status = Completed | Failed py_error | Waiting

text \<open>
  \<^verbatim>\<open>McpServer._handle_request(msg)\<close>. \<open>tools\<close> is the static list that
  \<^verbatim>\<open>_build_tools()\<close> returns.
\<close>

definition handle_request ::
  "(real \<Rightarrow> string) \<Rightarrow> json \<Rightarrow> real \<Rightarrow> call_env \<Rightarrow> json \<Rightarrow> job_queue
   \<Rightarrow> status \<times> json list \<times> job_queue" where
  "handle_request float_repr tools job_timeout_sec env msg q =
     (case msg of
        JObj m \<Rightarrow>
          (let method = py_get m ''method'';
               msg_id = py_get m ''id''
           in
           if method = JStr ''initialize'' then
             (let result =
                    JObj [(''protocolVersion'', JStr ''2024-11-05''),
                          (''serverInfo'', JObj [(''name'', JStr ''roblox-mcp-bridge''),
                                                 (''version'', JStr ''0.6'')]),
                          (''capabilities'', JObj [(''tools'', JObj [])])]
              in (Completed,
                  [JObj [(''jsonrpc'', JStr ''2.0''), (''id'', msg_id), (''result'', result)]], q))
           else if method = JStr ''notifications/initialized'' then (Completed, [], q)
           else if method = JStr ''tools/list'' then
             (Completed,
              [JObj [(''jsonrpc'', JStr ''2.0''), (''id'', msg_id),
                     (''result'', JObj [(''tools'', tools)])]], q)
           else if method = JStr ''tools/call'' then
             (case py_or (py_get m ''params'') (JObj []) of
                JObj params \<Rightarrow>
                  (let name = py_get params ''name'';
                       arguments = py_or (py_get params ''arguments'') (JObj [])
                   in case call_tool float_repr job_timeout_sec env name arguments q of
                        Returned result q' \<Rightarrow>
                          (Completed,
                           [JObj [(''jsonrpc'', JStr ''2.0''), (''id'', msg_id),
                                  (''result'', result)]], q')
                      | Raised e q' \<Rightarrow> (Failed e, [], q')
                      | Blocked \<Rightarrow> (Waiting, [], q))
              | _ \<Rightarrow> (Failed AttributeError, [], q))
           else if msg_id \<noteq> JNull then
             (Completed,
              [JObj [(''jsonrpc'', JStr ''2.0''), (''id'', msg_id),
                     (''error'', JObj [(''code'', JInt (- 32601)),
                                       (''message'', JStr ''Method not found'')])]], q)
           else (Completed, [], q))
      | _ \<Rightarrow> (Failed AttributeError, [], q))"

text \<open>
  \<^verbatim>\<open>McpServer.run\<close>. A line of standard input is blank after \<^verbatim>\<open>strip()\<close>, or
  \<^verbatim>\<open>json.loads\<close> raises \<^verbatim>\<open>JSONDecodeError\<close> on it, or it parses to a value. Each line
  comes with the environment of the tool call it may make.
\<close>

datatype stdin_line = Blank | NotJson | Line json

fun run ::
  "(real \<Rightarrow> string) \<Rightarrow> json \<Rightarrow> real \<Rightarrow> (stdin_line \<times> call_env) list \<Rightarrow> job_queue
   \<Rightarrow> status \<times> json list \<times> job_queue" where
  "run float_repr tools job_timeout_sec [] q = (Completed, [], q)"
| "run float_repr tools job_timeout_sec ((Blank, env) # rest) q =
     run float_repr tools job_timeout_sec rest q"
| "run float_repr tools job_timeout_sec ((NotJson, env) # rest) q =
     run float_repr tools job_timeout_sec rest q"
| "run float_repr tools job_timeout_sec ((Line msg, env) # rest) q =
     (case py_in ''method'' msg of
        Inl e \<Rightarrow> (Failed e, [], q)
      | Inr False \<Rightarrow> run float_repr tools job_timeout_sec rest q
      | Inr True \<Rightarrow>
          (case handle_request float_repr tools job_timeout_sec env msg q of
             (Completed, out, q') \<Rightarrow>
               (case run float_repr tools job_timeout_sec rest q' of
                  (st, out', q'') \<Rightarrow> (st, out @ out', q''))
           | failed \<Rightarrow> failed))"

section \<open>Properties of the JobQueue\<close>



lemma mailbox_mark_seen [simp]: "mailbox (mark_seen c' now q) c = mailbox q c"
  by (simp add: mailbox_def mark_seen_def)

lemma mailbox_store_result [simp]: "mailbox (store_result k r q) c = mailbox q c"
  by (simp add: mailbox_def store_result_def)

lemma mailbox_take_result [simp]: "mailbox (snd (take_result k q)) c = mailbox q c"
  by (simp add: mailbox_def take_result_def split: option.splits)









lemma results_exec_action_untouched:
  "\<not> touches_result k a \<Longrightarrow> results (exec_action a q) k = results q k"
  by (cases a)
     (auto simp: mark_seen_def enqueue_def pop_job_def store_result_def take_result_def
                 cancel_job_def split: list.splits option.splits)

lemma results_exec_actions_untouched:
  "\<forall>a\<in>set acts. \<not> touches_result k a \<Longrightarrow> results (exec_actions acts q) k = results q k"
  by (induction acts arbitrary: q) (simp_all add: exec_actions_def results_exec_action_untouched)

lemma results_exec_action_no_store:
  "\<not> stores_result k a \<Longrightarrow> results q k = None \<Longrightarrow> results (exec_action a q) k = None"
  by (cases a)
     (auto simp: mark_seen_def enqueue_def pop_job_def store_result_def take_result_def
                 cancel_job_def split: list.splits option.splits)

lemma results_exec_actions_no_store:
  "\<forall>a\<in>set acts. \<not> stores_result k a \<Longrightarrow> results q k = None
   \<Longrightarrow> results (exec_actions acts q) k = None"
  by (induction acts arbitrary: q) (simp_all add: exec_actions_def results_exec_action_no_store)

lemma take_result_None: "results q k = None \<Longrightarrow> take_result k q = (None, q)"
  by (simp add: take_result_def)

lemma take_result_Some:
  "results q k = Some r \<Longrightarrow> take_result k q = (Some r, q\<lparr>results := (results q)(k := None)\<rparr>)"
  by (simp add: take_result_def)

lemma wait_for_result_loop_never_found:
  assumes "results q k = None"
      and "\<forall>(acts, now)\<in>set ws. \<forall>a\<in>set acts. \<not> stores_result k a"
  shows "wait_for_result_loop k d q ws \<noteq> Some (Some x, q')"
  using assms
proof (induction ws arbitrary: q)
  case Nil
  then show ?case by simp
next
  case (Cons w ws)
  obtain acts now where w: "w = (acts, now)" by (cases w)
  have none: "results (exec_actions acts q) k = None"
    using Cons.prems w by (simp add: results_exec_actions_no_store)
  show ?case
    using Cons.IH [OF none] Cons.prems(2) none w
    by (simp add: take_result_None Let_def)
qed

lemma wait_for_result_loop_times_out:
  assumes "results q k = None"
      and "\<forall>(acts, now)\<in>set ws. \<forall>a\<in>set acts. \<not> stores_result k a"
      and "\<exists>(acts, now)\<in>set ws. d \<le> now"
  shows "\<exists>q'. wait_for_result_loop k d q ws = Some (None, q')"
  using assms
proof (induction ws arbitrary: q)
  case Nil
  then show ?case by simp
next
  case (Cons w ws)
  obtain acts now where w: "w = (acts, now)" by (cases w)
  have none: "results (exec_actions acts q) k = None"
    using Cons.prems w by (simp add: results_exec_actions_no_store)
  show ?case
  proof (cases "d \<le> now")
    case True
    then show ?thesis using none w by (simp add: take_result_None Let_def)
  next
    case False
    then have later: "\<exists>(acts, now)\<in>set ws. d \<le> now"
      using Cons.prems(3) w by auto
    have "\<exists>q'. wait_for_result_loop k d (exec_actions acts q) ws = Some (None, q')"
      using Cons.IH [OF none _ later] Cons.prems(2) by simp
    then show ?thesis using False none w by (simp add: take_result_None Let_def)
  qed
qed

text \<open>
  Claim C4. \<open>store_result k r\<close> followed by \<open>wait_for_result k\<close> (no other thread
  storing or taking slot \<open>k\<close> in between) returns \<open>r\<close> on its first pass and empties
  the slot. A second \<open>wait_for_result k\<close>, with no new \<open>store_result\<close> for \<open>k\<close>,
  never returns a result, and returns "no result" once the clock reaches its deadline.
\<close>

theorem store_then_wait_once:
  assumes "\<forall>a\<in>set acts. \<not> touches_result k a"
      and "\<forall>(acts', now')\<in>set ws'. \<forall>a\<in>set acts'. \<not> stores_result k a"
  shows "\<exists>q'. wait_for_result k t t0 (store_result k r q) ((acts, now) # ws) = Some (Some r, q')
           \<and> results q' k = None
           \<and> (\<forall>x q''. wait_for_result k t' t0' q' ws' \<noteq> Some (Some x, q''))
           \<and> ((\<exists>(acts', now')\<in>set ws'. t0' + t' \<le> now')
                \<longrightarrow> (\<exists>q''. wait_for_result k t' t0' q' ws' = Some (None, q'')))"
proof -
  let ?q1 = "exec_actions acts (store_result k r q)"
  let ?q' = "?q1\<lparr>results := (results ?q1)(k := None)\<rparr>"
  have stored: "results ?q1 k = Some r"
    using assms(1) by (simp add: results_exec_actions_untouched store_result_def)
  have first: "wait_for_result k t t0 (store_result k r q) ((acts, now) # ws) = Some (Some r, ?q')"
    using stored by (simp add: wait_for_result_def take_result_Some Let_def)
  have gone: "results ?q' k = None" by simp
  have never: "\<forall>x q''. wait_for_result k t' t0' ?q' ws' \<noteq> Some (Some x, q'')"
    using wait_for_result_loop_never_found [OF gone assms(2)]
    by (simp add: wait_for_result_def)
  have timeout: "(\<exists>(acts', now')\<in>set ws'. t0' + t' \<le> now')
                \<longrightarrow> (\<exists>q''. wait_for_result k t' t0' ?q' ws' = Some (None, q''))"
    using wait_for_result_loop_times_out [OF gone assms(2)]
    by (simp add: wait_for_result_def)
  show ?thesis using first gone never timeout by blast
qed

text \<open>
  Claim C10. Both waits test availability before the deadline. With a non-positive
  timeout and a clock that does not run backwards between the two readings, the first
  pass of \<open>wait_for_job\<close> returns the head of a non-empty mailbox and returns "no job"
  for an empty one; the first pass of \<open>wait_for_result\<close> returns a stored result and
  returns "no result" when the slot is empty. Neither consumes the rest of the schedule:
  the call does not block.
\<close>

theorem nonpositive_timeout:
  assumes "timeout_sec \<le> 0" and "t0 \<le> now"
  shows "wait_for_job c timeout_sec t0 q ((acts, now) # ws) =
           (case mailbox (exec_actions acts q) c of
              j # js \<Rightarrow> Some (Some j, snd (pop_job c (exec_actions acts q)))
            | [] \<Rightarrow> Some (None, exec_actions acts q))
         \<and> wait_for_result k timeout_sec t0 q ((acts, now) # ws) =
           (case results (exec_actions acts q) k of
              Some r \<Rightarrow> Some (Some r, snd (take_result k (exec_actions acts q)))
            | None \<Rightarrow> Some (None, exec_actions acts q))"
  using assms
  by (auto simp: wait_for_job_def wait_for_result_def pop_job_def take_result_def Let_def
           split: list.splits option.splits)



theorem store_then_wait_once_witness:
  "\<exists>q'. wait_for_result (KStr ''job_1'') 30 100
           (store_result (KStr ''job_1'') (JObj [(''job_id'', JStr ''job_1''), (''ok'', JBool True)]) empty_queue)
           [([MarkSeen ''studio'' 101], 101)]
         = Some (Some (JObj [(''job_id'', JStr ''job_1''), (''ok'', JBool True)]), q')
       \<and> results q' (KStr ''job_1'') = None
       \<and> (\<exists>q''. wait_for_result (KStr ''job_1'') 30 102 q' [([], 103), ([PopJob ''studio''], 132)]
              = Some (None, q''))"
  using store_then_wait_once [of "[MarkSeen ''studio'' 101]" "KStr ''job_1''"
          "[([], 103), ([PopJob ''studio''], 132)]" 30 100
          "JObj [(''job_id'', JStr ''job_1''), (''ok'', JBool True)]" empty_queue 101 "[]" 30 102]
  by simp blast

theorem nonpositive_timeout_witness:
  "wait_for_job ''studio'' 0 100 (enqueue ''studio'' [(''job_id'', JStr ''job_1'')] empty_queue) [([], 100)]
     = Some (Some [(''job_id'', JStr ''job_1'')],
             snd (pop_job ''studio'' (enqueue ''studio'' [(''job_id'', JStr ''job_1'')] empty_queue)))
   \<and> wait_for_job ''studio'' (- 1) 100 empty_queue [([], 100)] = Some (None, empty_queue)
   \<and> wait_for_result (KStr ''job_1'') (- 1) 100 empty_queue [([], 100)] = Some (None, empty_queue)"
  using nonpositive_timeout [of 0 100 100 "''studio''"
          "enqueue ''studio'' [(''job_id'', JStr ''job_1'')] empty_queue" "[]" "[]" "KStr ''job_1''"]
        nonpositive_timeout [of "- 1" 100 100 "''studio''" empty_queue "[]" "[]" "KStr ''job_1''"]
  by (simp add: exec_actions_def empty_queue_def mailbox_def enqueue_def)

section \<open>Properties of the tool-call translation\<close>

text \<open>
  Claim C6 (amended). For a tool whose job type is \<^verbatim>\<open>run_code\<close> or
  \<^verbatim>\<open>run_script_in_play_mode\<close>, when \<^verbatim>\<open>args.code\<close> is absent or falsy the job's
  \<^verbatim>\<open>args.code\<close> is \<^verbatim>\<open>args.script\<close> if that is truthy and otherwise \<^verbatim>\<open>args.source\<close>
  (\<^verbatim>\<open>None\<close> when that is absent too); every other argument is kept. With a truthy
  \<^verbatim>\<open>args.code\<close>, and for every other job type, the arguments are forwarded verbatim.
  The job's type is the table's entry for the tool name.
\<close>

theorem build_job_aliasing:
  assumes "map_of tool_to_job name = Some job_type"
  shows "\<exists>job. build_job hex now (JStr name) arguments = Inr (Some job)
           \<and> py_get job ''type'' = JStr job_type
           \<and> py_get job ''args'' = JObj
               (if job_type \<in> {''run_code'', ''run_script_in_play_mode''}
                   \<and> \<not> py_truthy (py_get arguments ''code'')
                then py_setitem arguments ''code''
                       (if py_truthy (py_get arguments ''script'') then py_get arguments ''script''
                        else py_get arguments ''source'')
                else arguments)"
  using assms
  by (simp add: build_job_def lookup_tool_def py_get_def py_get_default_def py_or_def Let_def)

theorem build_job_aliasing_witness:
  "\<exists>job. build_job ''0123456789ab'' 100 (JStr ''roblox_run_code'')
            [(''script'', JStr ''print(1)''), (''client_id'', JStr ''studio'')] = Inr (Some job)
         \<and> py_get job ''type'' = JStr ''run_code''
         \<and> py_get job ''args'' = JObj [(''script'', JStr ''print(1)''), (''client_id'', JStr ''studio''),
                                      (''code'', JStr ''print(1)'')]"
  using build_job_aliasing [of "''roblox_run_code''" "''run_code''" "''0123456789ab''" 100
          "[(''script'', JStr ''print(1)''), (''client_id'', JStr ''studio'')]"]
  by (simp add: tool_to_job_def py_get_def py_get_default_def py_setitem_def)

text \<open>
  The claim as stated fails where \<^verbatim>\<open>args.script\<close> is present but falsy: \<^verbatim>\<open>args.code\<close> is
  absent, \<^verbatim>\<open>args.script\<close> is the empty string, and the job's \<^verbatim>\<open>args.code\<close> is taken from
  \<^verbatim>\<open>args.source\<close>.
\<close>

theorem build_job_aliasing_counterexample:
  "\<not> py_contains [(''script'', JStr ''''), (''source'', JStr ''print(2)'')] ''code''
   \<and> py_contains [(''script'', JStr ''''), (''source'', JStr ''print(2)'')] ''script''
   \<and> build_job ''0123456789ab'' 100 (JStr ''roblox_run_code'')
            [(''script'', JStr ''''), (''source'', JStr ''print(2)'')]
       = Inr (Some [(''job_id'', JStr ''job_0123456789ab''),
                    (''type'', JStr ''run_code''),
                    (''args'', JObj [(''script'', JStr ''''), (''source'', JStr ''print(2)''),
                                     (''code'', JStr ''print(2)'')]),
                    (''created_at'', JFloat 100)])"
  by (simp add: build_job_def lookup_tool_def tool_to_job_def py_contains_def py_get_def
                py_get_default_def py_setitem_def py_or_def Let_def)

section \<open>Properties of the result upload\<close>




text \<open>
  Claim C8 (amended). The transport and the queue keep no record of the job ids that
  were minted: a result uploaded with any truthy, hashable \<^verbatim>\<open>job_id\<close> is answered with
  HTTP 200 and stored in the result store, whatever the state of the queue, and the
  entry stays there as long as no \<^verbatim>\<open>wait_for_result\<close> takes it and no later upload
  replaces it.
\<close>

theorem do_POST_keeps_any_result:
  assumes "0 < len"
      and "py_truthy (py_get d ''job_id'')"
      and "py_hash_key (py_get d ''job_id'') = Inr k"
      and "\<forall>a\<in>set acts. \<not> touches_result k a"
  shows "fst (do_POST ''/result'' len (Decoded (JObj d)) q) = Inr (200, JObj [(''ok'', JBool True)])
         \<and> results (exec_actions acts (snd (do_POST ''/result'' len (Decoded (JObj d)) q))) k
             = Some (JObj d)"
  using assms
  by (simp add: do_POST_def Let_def results_exec_actions_untouched store_result_def)

theorem do_POST_keeps_any_result_witness:
  "fst (do_POST ''/result'' 36
          (Decoded (JObj [(''job_id'', JStr ''job_unknown''), (''ok'', JBool True)])) empty_queue)
     = Inr (200, JObj [(''ok'', JBool True)])
   \<and> results (exec_actions [MarkSeen ''studio'' 5, PopJob ''studio'', CancelJob ''job_unknown'']
        (snd (do_POST ''/result'' 36
          (Decoded (JObj [(''job_id'', JStr ''job_unknown''), (''ok'', JBool True)])) empty_queue)))
        (KStr ''job_unknown'')
     = Some (JObj [(''job_id'', JStr ''job_unknown''), (''ok'', JBool True)])"
  using do_POST_keeps_any_result [of 36 "[(''job_id'', JStr ''job_unknown''), (''ok'', JBool True)]"
          "KStr ''job_unknown''" "[MarkSeen ''studio'' 5, PopJob ''studio'', CancelJob ''job_unknown'']"
          empty_queue]
  by (simp add: py_get_def py_get_default_def)

text \<open>
  The claim as stated fails: on a queue where no job was ever enqueued, the upload of a
  result for \<^verbatim>\<open>job_unknown\<close> is answered with HTTP 200 and the result store holds it.
\<close>

theorem unknown_result_counterexample:
  "pending empty_queue = []
   \<and> do_POST ''/result'' 36
        (Decoded (JObj [(''job_id'', JStr ''job_unknown''), (''ok'', JBool True)])) empty_queue
     = (Inr (200, JObj [(''ok'', JBool True)]),
        store_result (KStr ''job_unknown'')
          (JObj [(''job_id'', JStr ''job_unknown''), (''ok'', JBool True)]) empty_queue)
   \<and> results (store_result (KStr ''job_unknown'')
          (JObj [(''job_id'', JStr ''job_unknown''), (''ok'', JBool True)]) empty_queue)
        (KStr ''job_unknown'')
     = Some (JObj [(''job_id'', JStr ''job_unknown''), (''ok'', JBool True)])"
  by (simp add: do_POST_def empty_queue_def store_result_def py_get_def py_get_default_def)

section \<open>Properties of the dispatcher\<close>

lemma exec_actions_append:
  "exec_actions (xs @ ys) q = exec_actions ys (exec_actions xs q)"
  by (simp add: exec_actions_def)

lemma exec_actions_Cons:
  "exec_actions (a # xs) q = exec_actions xs (exec_action a q)"
  by (simp add: exec_actions_def)

lemma wait_for_result_loop_arrives:
  assumes "results q k = None"
      and "\<forall>(acts, n)\<in>set pre. (\<forall>a\<in>set acts. \<not> stores_result k a) \<and> n < d"
      and "\<forall>a\<in>set a2. \<not> touches_result k a"
  shows "\<exists>q'. wait_for_result_loop k d q (pre @ (a1 @ StoreResult k r # a2, now) # post)
               = Some (Some r, q')"
  using assms(1,2)
proof (induction pre arbitrary: q)
  case Nil
  have "results (exec_actions (a1 @ StoreResult k r # a2) q) k = Some r"
    using assms(3)
    by (simp add: exec_actions_append exec_actions_Cons results_exec_actions_untouched
                  store_result_def)
  then show ?case by (simp add: take_result_Some Let_def)
next
  case (Cons w pre)
  obtain acts n where w: "w = (acts, n)" by (cases w)
  have none: "results (exec_actions acts q) k = None"
    using Cons.prems w by (simp add: results_exec_actions_no_store)
  have early: "n < d" using Cons.prems(2) w by simp
  have rest: "\<forall>(acts, n)\<in>set pre. (\<forall>a\<in>set acts. \<not> stores_result k a) \<and> n < d"
    using Cons.prems(2) by simp
  show ?case
    using Cons.IH [OF none rest] none early w
    by (simp add: take_result_None Let_def)
qed

lemma build_job_known:
  assumes "lookup_tool name = Inr (Some job_type)"
  shows "\<exists>job. build_job hex now name args = Inr (Some job)
               \<and> py_get job ''job_id'' = JStr (''job_'' @ hex)"
  using assms by (simp add: build_job_def Let_def py_get_def py_get_default_def)

lemma results_enqueue [simp]: "results (enqueue c job q) k = results q k"
  by (simp add: enqueue_def)

lemma py_get_ok_default:
  "py_get r ''ok'' = JBool True \<Longrightarrow> py_get_default r ''ok'' (JBool False) = JBool True"
  by (auto simp: py_get_def py_get_default_def split: option.splits)

text \<open>
  Claim C1. A tool call (not the local status tool) by a connected client, for a known
  tool, whose job id has no result stored before the call waits: when, before the
  deadline passes, a result for that job id is uploaded (\<open>StoreResult\<close> under the job's
  id, which is what \<^verbatim>\<open>do_POST\<close> does with the body) with \<^verbatim>\<open>ok\<close> true, the dispatcher
  returns the success envelope \<^verbatim>\<open>{content: [{type: "text", text: t}]}\<close> where \<open>t\<close> is
  the serialisation of the result's \<^verbatim>\<open>result\<close> field with two-space indentation and
  non-ASCII characters kept.
\<close>

theorem call_tool_success:
  assumes "name \<noteq> JStr ''studio_get_connection_status''"
      and "py_or (py_get args ''client_id'') (JStr DEFAULT_CLIENT_ID) = JStr c"
      and "is_connected (KStr c) 15 (t_connected env) (exec_actions (before_call env) q0)"
      and "lookup_tool name = Inr (Some job_type)"
      and "results q0 (KStr (''job_'' @ hex12 env)) = None"
      and "\<forall>a\<in>set (before_call env @ before_enqueue env).
             \<not> stores_result (KStr (''job_'' @ hex12 env)) a"
      and "passes env
             = pre @ (a1 @ StoreResult (KStr (''job_'' @ hex12 env)) (JObj r) # a2, now) # post"
      and "\<forall>(acts, n)\<in>set pre.
             (\<forall>a\<in>set acts. \<not> stores_result (KStr (''job_'' @ hex12 env)) a)
             \<and> n < t_wait env + job_timeout_sec"
      and "\<forall>a\<in>set a2. \<not> touches_result (KStr (''job_'' @ hex12 env)) a"
      and "py_get r ''ok'' = JBool True"
  shows "\<exists>q'. call_tool float_repr job_timeout_sec env name (JObj args) q0
           = Returned
               (JObj [(''content'',
                       JArr [JObj [(''type'', JStr ''text''),
                                   (''text'', JStr (dumps float_repr 2 0 (py_get r ''result'')))]])])
               q'"
proof -
  let ?k = "KStr (''job_'' @ hex12 env)"
  let ?q1 = "exec_actions (before_enqueue env) (exec_actions (before_call env) q0)"
  obtain job where job: "build_job (hex12 env) (t_created env) name args = Inr (Some job)"
      and jid: "py_get job ''job_id'' = JStr (''job_'' @ hex12 env)"
    using build_job_known [OF assms(4)] by blast
  have "results ?q1 ?k = None"
    using assms(5,6) results_exec_actions_no_store [of "before_call env @ before_enqueue env" ?k q0]
    by (simp add: exec_actions_append)
  then have none: "results (enqueue c job ?q1) ?k = None" by simp
  have "\<exists>q'. wait_for_result_loop ?k (t_wait env + job_timeout_sec) (enqueue c job ?q1)
               (pre @ (a1 @ StoreResult ?k (JObj r) # a2, now) # post) = Some (Some (JObj r), q')"
    by (rule wait_for_result_loop_arrives [OF none assms(8,9)])
  then obtain q2 where wait:
    "wait_for_result ?k job_timeout_sec (t_wait env) (enqueue c job ?q1) (passes env)
       = Some (Some (JObj r), q2)"
    unfolding wait_for_result_def assms(7) by blast
  have "call_tool float_repr job_timeout_sec env name (JObj args) q0
          = Returned (tool_result float_repr (py_get r ''result'')) q2"
    using assms(1,2,3) job jid wait py_get_ok_default [OF assms(10)]
    by (simp add: call_tool_def Let_def)
  then show ?thesis by (simp add: tool_result_def Let_def)
qed

theorem call_tool_success_witness:
  "\<exists>q'. call_tool (\<lambda>r. []) 30
          \<lparr>before_call = [MarkSeen ''studio'' 99], t_connected = 100, before_enqueue = [],
           hex12 = ''0123456789ab'', t_created = 100, t_wait = 100,
           passes = [([PopJob ''studio''], 101),
                     ([StoreResult (KStr ''job_0123456789ab'')
                         (JObj [(''job_id'', JStr ''job_0123456789ab''), (''ok'', JBool True),
                                (''result'', JObj [(''services'',
                                   JArr [JStr ''Workspace'', JStr ''Lighting''])])])], 102)],
           before_cancel = []\<rparr>
          (JStr ''roblox_list_services'') (JObj [(''client_id'', JStr ''studio'')]) empty_queue
     = Returned
         (JObj [(''content'',
                 JArr [JObj [(''type'', JStr ''text''),
                             (''text'', JStr (''{'' @ [CHR 0x0A] @ ''  '' @ [CHR 0x22] @ ''services''
                                @ [CHR 0x22] @ '': ['' @ [CHR 0x0A] @ ''    '' @ [CHR 0x22]
                                @ ''Workspace'' @ [CHR 0x22] @ '','' @ [CHR 0x0A] @ ''    ''
                                @ [CHR 0x22] @ ''Lighting'' @ [CHR 0x22] @ [CHR 0x0A] @ ''  ]''
                                @ [CHR 0x0A] @ ''}''))]])])
         q'"
  using call_tool_success [where name = "JStr ''roblox_list_services''"
          and args = "[(''client_id'', JStr ''studio'')]" and c = "''studio''"
          and env = "\<lparr>before_call = [MarkSeen ''studio'' 99], t_connected = 100, before_enqueue = [],
           hex12 = ''0123456789ab'', t_created = 100, t_wait = 100,
           passes = [([PopJob ''studio''], 101),
                     ([StoreResult (KStr ''job_0123456789ab'')
                         (JObj [(''job_id'', JStr ''job_0123456789ab''), (''ok'', JBool True),
                                (''result'', JObj [(''services'',
                                   JArr [JStr ''Workspace'', JStr ''Lighting''])])])], 102)],
           before_cancel = []\<rparr>"
          and ?q0.0 = empty_queue and job_type = "''list_services''"
          and pre = "[([PopJob ''studio''], 101)]" and ?a1.0 = "[]" and ?a2.0 = "[]"
          and r = "[(''job_id'', JStr ''job_0123456789ab''), (''ok'', JBool True),
                    (''result'', JObj [(''services'', JArr [JStr ''Workspace'', JStr ''Lighting''])])]"
          and now = 102 and post = "[]" and job_timeout_sec = 30 and float_repr = "\<lambda>r. []"]
  by (simp add: py_or_def py_get_def py_get_default_def DEFAULT_CLIENT_ID_def is_connected_def
                get_last_seen_def exec_actions_def mark_seen_def empty_queue_def lookup_tool_def
                tool_to_job_def newline_indent_def py_encode_basestring_def escape_char_def
                eval_nat_numeral)

subsection \<open>Cancellation after a timeout\<close>

lemma count_job_id_zero_iff:
  "count_job_id jid p = 0 \<longleftrightarrow> (\<forall>cjs\<in>set p. \<forall>j\<in>set (snd cjs). \<not> has_job_id jid j)"
  by (induction p) (auto simp: count_job_id_def filter_empty_conv)

lemma count_job_id_update:
  "count_job_id jid (AList.update c js p)
     + length (filter (has_job_id jid) (case map_of p c of None \<Rightarrow> [] | Some old \<Rightarrow> old))
   = count_job_id jid p + length (filter (has_job_id jid) js)"
  by (induction p) (auto simp: count_job_id_def)

lemma count_job_id_enqueue:
  "count_job_id jid (pending (enqueue c j q))
     = count_job_id jid (pending q) + (if has_job_id jid j then 1 else 0)"
  using count_job_id_update [of jid c "mailbox q c @ [j]" "pending q"]
  by (simp add: enqueue_def mailbox_def)

lemma count_job_id_pop_job:
  "count_job_id jid (pending (snd (pop_job c q))) \<le> count_job_id jid (pending q)"
proof (cases "mailbox q c")
  case Nil
  then show ?thesis by (simp add: pop_job_def)
next
  case (Cons j js)
  then show ?thesis
    using count_job_id_update [of jid c js "pending q"]
    by (simp add: pop_job_def mailbox_def split: if_splits)
qed

lemma remove_first_job_count:
  "(remove_first_job jid js = None \<longrightarrow> filter (has_job_id jid) js = [])
   \<and> (\<forall>js'. remove_first_job jid js = Some js'
         \<longrightarrow> Suc (length (filter (has_job_id jid) js')) = length (filter (has_job_id jid) js))"
  by (induction js) (auto simp: has_job_id_def)

lemma cancel_pending_count:
  "(cancel_pending jid p = None \<longrightarrow> count_job_id jid p = 0)
   \<and> (\<forall>p'. cancel_pending jid p = Some p' \<longrightarrow> Suc (count_job_id jid p') = count_job_id jid p)"
proof (induction p)
  case Nil
  then show ?case by (simp add: count_job_id_def)
next
  case (Cons cjs p)
  obtain c js where cjs: "cjs = (c, js)" by (cases cjs)
  show ?case
  proof (cases "remove_first_job jid js")
    case None
    then have "filter (has_job_id jid) js = []"
      using remove_first_job_count [of jid js] by simp
    then show ?thesis
      using Cons None cjs by (auto simp: count_job_id_def)
  next
    case (Some js')
    then have "Suc (length (filter (has_job_id jid) js')) = length (filter (has_job_id jid) js)"
      using remove_first_job_count [of jid js] by simp
    then show ?thesis
      using Some cjs by (auto simp: count_job_id_def)
  qed
qed

lemma count_job_id_cancel_job:
  "count_job_id jid (pending (snd (cancel_job jid q))) = count_job_id jid (pending q) - 1"
  using cancel_pending_count [of jid "pending q"]
  by (auto simp: cancel_job_def split: option.splits)

lemma remove_first_job_le:
  "remove_first_job jid' js = Some js'
   \<Longrightarrow> length (filter (has_job_id jid) js') \<le> length (filter (has_job_id jid) js)"
  by (induction js arbitrary: js') (auto split: if_splits)

lemma cancel_pending_le:
  "cancel_pending jid' p = Some p' \<Longrightarrow> count_job_id jid p' \<le> count_job_id jid p"
proof (induction p arbitrary: p')
  case Nil
  then show ?case by simp
next
  case (Cons cjs p)
  obtain c js where cjs: "cjs = (c, js)" by (cases cjs)
  show ?case
  proof (cases "remove_first_job jid' js")
    case None
    then obtain p0 where "cancel_pending jid' p = Some p0" and "p' = (c, js) # p0"
      using Cons.prems cjs by auto
    then show ?thesis
      using Cons.IH [of p0] cjs by (simp add: count_job_id_def)
  next
    case (Some js')
    then have "p' = (c, js') # p" using Cons.prems cjs by simp
    then show ?thesis
      using remove_first_job_le [OF Some, of jid] cjs by (simp add: count_job_id_def)
  qed
qed

lemma count_job_id_cancel_other:
  "count_job_id jid (pending (snd (cancel_job jid' q))) \<le> count_job_id jid (pending q)"
  by (auto simp: cancel_job_def cancel_pending_le split: option.splits)

lemma count_job_id_exec_action:
  "\<not> enqueues_job_id jid a
   \<Longrightarrow> count_job_id jid (pending (exec_action a q)) \<le> count_job_id jid (pending q)"
  by (cases a)
     (simp_all add: mark_seen_def store_result_def take_result_def count_job_id_enqueue
                    count_job_id_pop_job count_job_id_cancel_other split: option.splits)

lemma count_job_id_exec_actions:
  "\<forall>a\<in>set acts. \<not> enqueues_job_id jid a
   \<Longrightarrow> count_job_id jid (pending (exec_actions acts q)) \<le> count_job_id jid (pending q)"
proof (induction acts arbitrary: q)
  case Nil
  then show ?case by (simp add: exec_actions_def)
next
  case (Cons a acts)
  have "count_job_id jid (pending (exec_actions acts (exec_action a q)))
          \<le> count_job_id jid (pending (exec_action a q))"
    using Cons by simp
  also have "\<dots> \<le> count_job_id jid (pending q)"
    using Cons.prems by (simp add: count_job_id_exec_action)
  finally show ?case by (simp add: exec_actions_Cons)
qed

lemma wait_for_result_loop_gives_up:
  assumes "results q k = None"
      and "\<forall>(acts, n)\<in>set ws. \<forall>a\<in>set acts. \<not> stores_result k a \<and> \<not> enqueues_job_id jid a"
      and "\<exists>(acts, n)\<in>set ws. d \<le> n"
  shows "\<exists>q'. wait_for_result_loop k d q ws = Some (None, q')
               \<and> count_job_id jid (pending q') \<le> count_job_id jid (pending q)"
  using assms
proof (induction ws arbitrary: q)
  case Nil
  then show ?case by simp
next
  case (Cons w ws)
  obtain acts n where w: "w = (acts, n)" by (cases w)
  let ?q1 = "exec_actions acts q"
  have none: "results ?q1 k = None"
    using Cons.prems w by (simp add: results_exec_actions_no_store)
  have le: "count_job_id jid (pending ?q1) \<le> count_job_id jid (pending q)"
    using Cons.prems(2) w by (simp add: count_job_id_exec_actions)
  show ?case
  proof (cases "d \<le> n")
    case True
    then show ?thesis using none le w by (simp add: take_result_None Let_def)
  next
    case False
    then have later: "\<exists>(acts, n)\<in>set ws. d \<le> n"
      using Cons.prems(3) w by auto
    have "\<exists>q'. wait_for_result_loop k d ?q1 ws = Some (None, q')
               \<and> count_job_id jid (pending q') \<le> count_job_id jid (pending ?q1)"
      using Cons.IH [OF none _ later] Cons.prems(2) by simp
    then show ?thesis using False none le w by (auto simp: take_result_None Let_def)
  qed
qed

text \<open>
  Claim C2. A tool call (not the local status tool) by a connected client, for a known
  tool, with a job id that no pending job and no stored result carries when the call
  starts: when no other thread stores a result under that job id (or enqueues a job
  carrying it; only the dispatcher enqueues) and the clock reaches the deadline, the
  dispatcher returns exactly the timeout error envelope, and afterwards no mailbox of
  the queue holds a job with that job id.
\<close>

theorem call_tool_timeout:
  assumes "name \<noteq> JStr ''studio_get_connection_status''"
      and "py_or (py_get args ''client_id'') (JStr DEFAULT_CLIENT_ID) = JStr c"
      and "is_connected (KStr c) 15 (t_connected env) (exec_actions (before_call env) q0)"
      and "lookup_tool name = Inr (Some job_type)"
      and "results q0 (KStr (''job_'' @ hex12 env)) = None"
      and "\<forall>cjs\<in>set (pending q0). \<forall>j\<in>set (snd cjs). py_get j ''job_id'' \<noteq> JStr (''job_'' @ hex12 env)"
      and "\<forall>a\<in>set (before_call env @ before_enqueue env @ concat (map fst (passes env))
                    @ before_cancel env).
             \<not> stores_result (KStr (''job_'' @ hex12 env)) a
             \<and> \<not> enqueues_job_id (''job_'' @ hex12 env) a"
      and "\<exists>(acts, n)\<in>set (passes env). t_wait env + job_timeout_sec \<le> n"
  shows "\<exists>q'. call_tool float_repr job_timeout_sec env name (JObj args) q0
           = Returned
               (JObj [(''isError'', JBool True),
                      (''content'',
                       JArr [JObj [(''type'', JStr ''text''),
                                   (''text'', JStr (''Timed out waiting for Studio to respond. ''
                                      @ ''Check that the plugin is running and connected.''))]])])
               q'
         \<and> (\<forall>cjs\<in>set (pending q'). \<forall>j\<in>set (snd cjs).
               py_get j ''job_id'' \<noteq> JStr (''job_'' @ hex12 env))"
proof -
  let ?jid = "''job_'' @ hex12 env"
  let ?k = "KStr ?jid"
  let ?q1 = "exec_actions (before_enqueue env) (exec_actions (before_call env) q0)"
  obtain job where job: "build_job (hex12 env) (t_created env) name args = Inr (Some job)"
      and jid: "py_get job ''job_id'' = JStr ?jid"
    using build_job_known [OF assms(4)] by blast
  have fresh: "count_job_id ?jid (pending q0) = 0"
    using assms(6) by (simp add: count_job_id_zero_iff has_job_id_def)
  have s1: "\<forall>a\<in>set (before_call env @ before_enqueue env). \<not> stores_result ?k a"
    using assms(7) by auto
  have e1: "\<forall>a\<in>set (before_call env @ before_enqueue env). \<not> enqueues_job_id ?jid a"
    using assms(7) by auto
  have e3: "\<forall>a\<in>set (before_cancel env). \<not> enqueues_job_id ?jid a"
    using assms(7) by auto
  have "results ?q1 ?k = None"
    using results_exec_actions_no_store [OF s1 assms(5)]
    by (simp add: exec_actions_append)
  then have none: "results (enqueue c job ?q1) ?k = None" by simp
  have "count_job_id ?jid (pending ?q1) \<le> count_job_id ?jid (pending q0)"
    using count_job_id_exec_actions [OF e1, of q0]
    by (simp add: exec_actions_append)
  then have one: "count_job_id ?jid (pending (enqueue c job ?q1)) \<le> 1"
    using fresh by (simp add: count_job_id_enqueue)
  have quiet: "\<forall>(acts, n)\<in>set (passes env).
                 \<forall>a\<in>set acts. \<not> stores_result ?k a \<and> \<not> enqueues_job_id ?jid a"
  proof (intro ballI, clarify)
    fix acts n a
    assume "(acts, n) \<in> set (passes env)" and "a \<in> set acts"
    then have "a \<in> set (concat (map fst (passes env)))" by force
    then show "\<not> stores_result ?k a \<and> \<not> enqueues_job_id ?jid a"
      using assms(7) by simp
  qed
  have "\<exists>q2. wait_for_result_loop ?k (t_wait env + job_timeout_sec) (enqueue c job ?q1) (passes env)
                 = Some (None, q2)
              \<and> count_job_id ?jid (pending q2) \<le> count_job_id ?jid (pending (enqueue c job ?q1))"
    by (rule wait_for_result_loop_gives_up [OF none quiet assms(8)])
  then obtain q2 where wait:
      "wait_for_result ?k job_timeout_sec (t_wait env) (enqueue c job ?q1) (passes env)
         = Some (None, q2)"
      and le2: "count_job_id ?jid (pending q2) \<le> 1"
    using one unfolding wait_for_result_def by force
  let ?q3 = "exec_actions (before_cancel env) q2"
  let ?q4 = "snd (cancel_job ?jid ?q3)"
  have "count_job_id ?jid (pending ?q3) \<le> count_job_id ?jid (pending q2)"
    by (rule count_job_id_exec_actions [OF e3])
  then have "count_job_id ?jid (pending ?q4) = 0"
    using le2 by (simp add: count_job_id_cancel_job)
  then have gone: "\<forall>cjs\<in>set (pending ?q4). \<forall>j\<in>set (snd cjs). py_get j ''job_id'' \<noteq> JStr ?jid"
    by (simp add: count_job_id_zero_iff has_job_id_def)
  have "call_tool float_repr job_timeout_sec env name (JObj args) q0
          = Returned (tool_error (JStr (''Timed out waiting for Studio to respond. ''
                                      @ ''Check that the plugin is running and connected.''))) ?q4"
    using assms(1,2,3) job jid wait
    by (simp add: call_tool_def Let_def)
  then show ?thesis using gone by (simp add: tool_error_def)
qed

theorem call_tool_timeout_witness:
  "(case call_tool (\<lambda>r. []) 30
           \<lparr>before_call = [MarkSeen ''studio'' 99], t_connected = 100, before_enqueue = [],
            hex12 = ''0123456789ab'', t_created = 100, t_wait = 100,
            passes = [([MarkSeen ''studio'' 110], 110), ([], 130)],
            before_cancel = []\<rparr>
           (JStr ''roblox_list_services'') (JObj [(''client_id'', JStr ''studio'')]) empty_queue of
      Returned envelope q' \<Rightarrow>
        envelope = JObj [(''isError'', JBool True),
                         (''content'',
                          JArr [JObj [(''type'', JStr ''text''),
                                      (''text'', JStr (''Timed out waiting for Studio to respond. ''
                                         @ ''Check that the plugin is running and connected.''))]])]
        \<and> pending q' = [(''studio'', [])]
    | _ \<Rightarrow> False)"
  using call_tool_timeout [where name = "JStr ''roblox_list_services''"
          and args = "[(''client_id'', JStr ''studio'')]" and c = "''studio''"
          and env = "\<lparr>before_call = [MarkSeen ''studio'' 99], t_connected = 100, before_enqueue = [],
            hex12 = ''0123456789ab'', t_created = 100, t_wait = 100,
            passes = [([MarkSeen ''studio'' 110], 110), ([], 130)],
            before_cancel = []\<rparr>"
          and ?q0.0 = empty_queue and job_type = "''list_services''"
          and job_timeout_sec = 30 and float_repr = "\<lambda>r. []"]
  by (simp add: py_or_def py_get_def py_get_default_def DEFAULT_CLIENT_ID_def is_connected_def
                get_last_seen_def exec_actions_def mark_seen_def empty_queue_def lookup_tool_def
                tool_to_job_def call_tool_def build_job_def wait_for_result_def take_result_def
                enqueue_def mailbox_def cancel_job_def tool_error_def Let_def)

section \<open>Properties of the stdio transport\<close>

text \<open>
  Claim C5. A request without an \<^verbatim>\<open>id\<close> should get no reply. The code replies to
  \<^verbatim>\<open>initialize\<close> and to \<^verbatim>\<open>tools/list\<close> whether or not the request has an \<^verbatim>\<open>id\<close>: without
  one, a reply with \<^verbatim>\<open>"id": null\<close> is written. (Only the fall-through for unknown
  methods tests \<^verbatim>\<open>msg_id is not None\<close>.)
\<close>

theorem notification_gets_reply:
  "handle_request float_repr tools job_timeout_sec env
      (JObj [(''jsonrpc'', JStr ''2.0''), (''method'', JStr ''initialize'')]) q
     = (Completed,
        [JObj [(''jsonrpc'', JStr ''2.0''), (''id'', JNull),
               (''result'',
                JObj [(''protocolVersion'', JStr ''2024-11-05''),
                      (''serverInfo'', JObj [(''name'', JStr ''roblox-mcp-bridge''),
                                             (''version'', JStr ''0.6'')]),
                      (''capabilities'', JObj [(''tools'', JObj [])])])]], q)
   \<and> handle_request float_repr tools job_timeout_sec env
      (JObj [(''jsonrpc'', JStr ''2.0''), (''method'', JStr ''tools/list'')]) q
     = (Completed,
        [JObj [(''jsonrpc'', JStr ''2.0''), (''id'', JNull),
               (''result'', JObj [(''tools'', tools)])]], q)"
  by (simp add: handle_request_def py_get_def py_get_default_def Let_def)

text \<open>
  Claim C9. A line that parses to a JSON value without a \<^verbatim>\<open>method\<close> should be skipped
  silently. For a number (and likewise a bool or \<^verbatim>\<open>null\<close>) the test
  \<^verbatim>\<open>"method" in msg\<close> raises \<^verbatim>\<open>TypeError\<close>, which leaves \<^verbatim>\<open>run\<close>: the loop ends and
  the lines after it, here an \<^verbatim>\<open>initialize\<close> request, are never processed.
\<close>

theorem run_number_line_raises:
  "run float_repr tools job_timeout_sec
      [(Line (JInt 42), env),
       (Line (JObj [(''jsonrpc'', JStr ''2.0''), (''id'', JInt 1), (''method'', JStr ''initialize'')]),
        env')] q
     = (Failed TypeError, [], q)"
  by simp

text \<open>The lines the loop does skip: blank ones, unparseable ones, and objects without a
  \<^verbatim>\<open>method\<close> key.\<close>

lemma run_skips:
  "run float_repr tools job_timeout_sec ((Blank, env) # rest) q
     = run float_repr tools job_timeout_sec rest q"
  "run float_repr tools job_timeout_sec ((NotJson, env) # rest) q
     = run float_repr tools job_timeout_sec rest q"
  "\<not> py_contains m ''method''
   \<Longrightarrow> run float_repr tools job_timeout_sec ((Line (JObj m), env) # rest) q
        = run float_repr tools job_timeout_sec rest q"
  by simp_all

end
